theory Spec2Isabelle
  imports Main
begin

section \<open>Data model\<close>

text \<open>
  The repository holds two variants of one Express application: \<^verbatim>\<open>app.js\<close>, with
  roles and an admin page, and an earlier file without roles. A definition named after a
  function of \<^verbatim>\<open>app.js\<close> carries the function's name; the same function of the
  other file carries the suffix \<open>0\<close>.

  A value of a parsed form is a string or, with the extended URL-encoded parser, a nested
  object.
\<close>

datatype jsval = JStr string | JObj "(string \<times> jsval) list"

text \<open>
  The object stored in \<^verbatim>\<open>req.session.user\<close> has the properties \<open>name\<close>,
  \<open>email\<close> and, in \<^verbatim>\<open>app.js\<close> only, \<open>user_type\<close>: an absent property is
  \<open>None\<close>. A document of the \<open>users\<close> collection has the same properties and the
  stored \<open>password\<close>.
\<close>

record identity =
  name :: string
  email :: string
  user_type :: "string option"

record user = identity +
  password :: string

text \<open>
  The collaborators that are not code of the repository are parameters: the two bcrypt
  calls, the syntax check behind Joi's \<open>email()\<close> rule, and MongoDB's reading of a
  filter whose value is an operator document instead of a string.
\<close>

record env =
  bcrypt_hash :: "string \<Rightarrow> string"
  bcrypt_compare :: "string \<Rightarrow> string \<Rightarrow> bool"
  joi_email :: "string \<Rightarrow> bool"
  mongo_operator :: "(string \<times> jsval) list \<Rightarrow> string \<Rightarrow> bool"

subsection \<open>Responses\<close>

datatype joi_error =
    AnyRequired string
  | StringBase string
  | StringEmpty string
  | StringEmail string
  | StringMin string nat
  | StringMax string nat
  | ObjectUnknown string

datatype payload = Text string | JoiMessage joi_error

datatype lval =
    LNull
  | LUndefined
  | LStr string
  | LIdentity identity
  | LUsers "user list"

text \<open>
  A call on \<^verbatim>\<open>res\<close>, with the status set before it (200 when none is set).
\<close>

datatype res_call =
    Send nat payload
  | Render nat string "(string \<times> lval) list"
  | Redirect string

datatype js_error = TypeError

text \<open>
  What a handler leaves behind: the collection, \<^verbatim>\<open>req.session.user\<close>, the calls it
  made on \<^verbatim>\<open>res\<close> in order, and the exception that ended it, if any. The calls
  are recorded as the handler makes them; what Express does with a call that comes after
  the response has been sent is not part of the model. The store and the hasher always
  answer, so the \<^verbatim>\<open>catch\<close> branches of the variant without roles, which handle
  their failures only, are never entered and have no counterpart here.
\<close>

record result =
  r_users :: "user list"
  r_session :: "identity option"
  r_calls :: "res_call list"
  r_thrown :: "js_error option"

definition lv_user :: "identity option \<Rightarrow> lval" where
  "lv_user s = (case s of None \<Rightarrow> LUndefined | Some i \<Rightarrow> LIdentity i)"

section \<open>The collection\<close>

definition findOne :: "('a \<Rightarrow> bool) \<Rightarrow> 'a list \<Rightarrow> 'a option" where
  "findOne p db = find p db"

definition insertOne :: "'a \<Rightarrow> 'a list \<Rightarrow> 'a list" where
  "insertOne d db = db @ [d]"

fun updateOne :: "('a \<Rightarrow> bool) \<Rightarrow> ('a \<Rightarrow> 'a) \<Rightarrow> 'a list \<Rightarrow> 'a list" where
  "updateOne p f [] = []"
| "updateOne p f (d # ds) = (if p d then f d # ds else d # updateOne p f ds)"

text \<open>
  The filter \<^verbatim>\<open>{ email: req.body.email }\<close> of the two role handlers, whose value is
  not validated: a string is compared with the stored email, an absent property matches
  no stored document (every document has a string email), an object is an operator
  document.
\<close>

fun email_filter :: "env \<Rightarrow> jsval option \<Rightarrow> user \<Rightarrow> bool" where
  "email_filter E (Some (JStr e)) d = (email d = e)"
| "email_filter E (Some (JObj ops)) d = mongo_operator E ops (email d)"
| "email_filter E None d = False"

section \<open>Validation\<close>

text \<open>
  The Joi schemas of the handlers use three string rules. A string schema rejects a value
  that is not a string and the empty string before its rules run; a required key rejects
  an absent value. The rules run in the order they are written, the keys in the order of the
  schema, a key the schema does not name is rejected last, and the first error is the one
  reported. The response carries the message of that error, which is kept as the error
  itself. Lengths are lengths of the model's strings.
\<close>

datatype rule = Email | Max nat | Min nat

fun check_rules :: "(string \<Rightarrow> bool) \<Rightarrow> string \<Rightarrow> rule list \<Rightarrow> string \<Rightarrow> joi_error option" where
  "check_rules ok k [] s = None"
| "check_rules ok k (Email # rs) s =
     (if ok s then check_rules ok k rs s else Some (StringEmail k))"
| "check_rules ok k (Max n # rs) s =
     (if length s \<le> n then check_rules ok k rs s else Some (StringMax k n))"
| "check_rules ok k (Min n # rs) s =
     (if n \<le> length s then check_rules ok k rs s else Some (StringMin k n))"

fun joi_string :: "(string \<Rightarrow> bool) \<Rightarrow> string \<Rightarrow> rule list \<Rightarrow> jsval option \<Rightarrow> joi_error + string" where
  "joi_string ok k rs None = Inl (AnyRequired k)"
| "joi_string ok k rs (Some (JObj ps)) = Inl (StringBase k)"
| "joi_string ok k rs (Some (JStr s)) =
     (if s = [] then Inl (StringEmpty k)
      else case check_rules ok k rs s of Some e \<Rightarrow> Inl e | None \<Rightarrow> Inr s)"

fun validate_keys ::
  "(string \<Rightarrow> bool) \<Rightarrow> (string \<times> rule list) list \<Rightarrow> (string \<times> jsval) list
     \<Rightarrow> joi_error + (string \<times> string) list" where
  "validate_keys ok [] b = Inr []"
| "validate_keys ok ((k, rs) # sch) b =
     (case joi_string ok k rs (map_of b k) of
        Inl e \<Rightarrow> Inl e
      | Inr s \<Rightarrow>
          (case validate_keys ok sch b of
             Inl e \<Rightarrow> Inl e
           | Inr vs \<Rightarrow> Inr ((k, s) # vs)))"

definition validate ::
  "(string \<Rightarrow> bool) \<Rightarrow> (string \<times> rule list) list \<Rightarrow> (string \<times> jsval) list
     \<Rightarrow> joi_error + (string \<times> string) list" where
  "validate ok sch b =
     (case validate_keys ok sch b of
        Inl e \<Rightarrow> Inl e
      | Inr vs \<Rightarrow>
          (case filter (\<lambda>k. k \<notin> set (map fst sch)) (map fst b) of
             [] \<Rightarrow> Inr vs
           | k # ks \<Rightarrow> Inl (ObjectUnknown k)))"

text \<open>
  A property of the validated value. Every read in the handlers is of a key of the schema,
  which a validated value always has.
\<close>

definition fld :: "(string \<times> string) list \<Rightarrow> string \<Rightarrow> string" where
  "fld vs k = (case map_of vs k of Some s \<Rightarrow> s | None \<Rightarrow> [])"

definition signup_schema :: "(string \<times> rule list) list" where
  "signup_schema =
     [(''name'', [Max 255]), (''email'', [Email]), (''password'', [Min 6])]"

definition signup_schema0 :: "(string \<times> rule list) list" where
  "signup_schema0 =
     [(''name'', [Max 255]), (''email'', [Email, Max 255]), (''password'', [Min 6, Max 255])]"

definition login_schema :: "(string \<times> rule list) list" where
  "login_schema = [(''email'', [Email]), (''password'', [])]"

section \<open>The gates\<close>

text \<open>
  A middleware either calls \<^verbatim>\<open>next()\<close> (\<open>None\<close>) or answers the request itself.
\<close>

definition isLoggedIn :: "identity option \<Rightarrow> res_call option" where
  "isLoggedIn s = (if s \<noteq> None then None else Some (Redirect ''/login''))"

definition isAdmin :: "identity option \<Rightarrow> res_call option" where
  "isAdmin s =
     (case s of
        Some i \<Rightarrow>
          (if user_type i = Some ''admin'' then None
           else Some (Render 403 ''403'' [(''user'', lv_user s)]))
      | None \<Rightarrow> Some (Render 403 ''403'' [(''user'', lv_user s)]))"

definition isLoggedIn0 :: "identity option \<Rightarrow> res_call option" where
  "isLoggedIn0 s = (if s \<noteq> None then None else Some (Redirect ''/''))"

fun run_gates :: "(identity option \<Rightarrow> res_call option) list \<Rightarrow> identity option \<Rightarrow> res_call option" where
  "run_gates [] s = None"
| "run_gates (g # gs) s = (case g s of None \<Rightarrow> run_gates gs s | Some r \<Rightarrow> Some r)"

text \<open>
  The gates of the route table of \<^verbatim>\<open>app.js\<close>: \<^verbatim>\<open>/members\<close> asks for a session,
  \<^verbatim>\<open>/admin\<close>, \<^verbatim>\<open>/promote\<close> and \<^verbatim>\<open>/demote\<close> for a session and the admin role.
\<close>

definition members_gates :: "(identity option \<Rightarrow> res_call option) list" where
  "members_gates = [isLoggedIn]"

definition admin_gates :: "(identity option \<Rightarrow> res_call option) list" where
  "admin_gates = [isLoggedIn, isAdmin]"

definition route ::
  "(identity option \<Rightarrow> res_call option) list
     \<Rightarrow> (user list \<Rightarrow> identity option \<Rightarrow> (string \<times> jsval) list \<Rightarrow> result)
     \<Rightarrow> user list \<Rightarrow> identity option \<Rightarrow> (string \<times> jsval) list \<Rightarrow> result" where
  "route gates handler db s b =
     (case run_gates gates s of
        Some r \<Rightarrow> \<lparr>r_users = db, r_session = s, r_calls = [r], r_thrown = None\<rparr>
      | None \<Rightarrow> handler db s b)"

text \<open>
  The rule of the specification, in its words: allow iff a session exists and the required
  role is unset or equal to the role of the session.
\<close>

definition authorize_spec :: "identity option \<Rightarrow> string option \<Rightarrow> bool" where
  "authorize_spec s required =
     (case s of
        None \<Rightarrow> False
      | Some i \<Rightarrow> required = None \<or> user_type i = required)"

section \<open>The handlers\<close>

subsection \<open>Signup\<close>

text \<open>
  A handler is modelled as one request served on its own, from the collection it finds to
  the collection it leaves. The lookup, the hash and the insert are separate awaits in the
  source and no unique index is created, so two signups for one email that run at the same
  time can both pass the lookup and both insert; the model does not represent requests
  that overlap and nothing below is a statement about them.
\<close>

definition signupPost :: "env \<Rightarrow> user list \<Rightarrow> identity option \<Rightarrow> (string \<times> jsval) list \<Rightarrow> result" where
  "signupPost E db s b =
     (case validate (joi_email E) signup_schema b of
        Inl e \<Rightarrow>
          \<lparr>r_users = db, r_session = s, r_calls = [Send 400 (JoiMessage e)], r_thrown = None\<rparr>
      | Inr v \<Rightarrow>
          (case findOne (\<lambda>d. email d = fld v ''email'') db of
             Some existingUser \<Rightarrow>
               \<lparr>r_users = db, r_session = s,
                r_calls = [Send 400 (Text ''Email already exists'')], r_thrown = None\<rparr>
           | None \<Rightarrow>
               (let hashedPassword = bcrypt_hash E (fld v ''password'');
                    newUser = \<lparr>name = fld v ''name'', email = fld v ''email'',
                               user_type = Some ''user'', password = hashedPassword\<rparr>
                in \<lparr>r_users = insertOne newUser db,
                    r_session = Some \<lparr>name = name newUser, email = email newUser,
                                       user_type = user_type newUser\<rparr>,
                    r_calls = [Redirect ''/members''], r_thrown = None\<rparr>)))"

definition signupPost0 :: "env \<Rightarrow> user list \<Rightarrow> identity option \<Rightarrow> (string \<times> jsval) list \<Rightarrow> result" where
  "signupPost0 E db s b =
     (case validate (joi_email E) signup_schema0 b of
        Inl e \<Rightarrow>
          \<lparr>r_users = db, r_session = s, r_calls = [Send 400 (JoiMessage e)], r_thrown = None\<rparr>
      | Inr v \<Rightarrow>
          (case findOne (\<lambda>d. email d = fld v ''email'') db of
             Some existingUser \<Rightarrow>
               \<lparr>r_users = db, r_session = s,
                r_calls = [Send 400 (Text ''Email already exists'')], r_thrown = None\<rparr>
           | None \<Rightarrow>
               (let hashedPassword = bcrypt_hash E (fld v ''password'');
                    newUser = \<lparr>name = fld v ''name'', email = fld v ''email'',
                               user_type = None, password = hashedPassword\<rparr>
                in \<lparr>r_users = insertOne newUser db,
                    r_session = Some \<lparr>name = fld v ''name'', email = fld v ''email'',
                                       user_type = None\<rparr>,
                    r_calls = [Redirect ''/members''], r_thrown = None\<rparr>)))"

subsection \<open>Login\<close>

text \<open>
  In \<^verbatim>\<open>app.js\<close> the failure branch renders the login view and does not return: the
  assignment of \<^verbatim>\<open>req.session.user\<close> runs next and reads \<^verbatim>\<open>user.name\<close>, which
  throws when no document was found, and is followed by the redirect otherwise.
\<close>

definition invalid_login :: string where
  "invalid_login = ''Invalid email/password combination''"

definition loginPost :: "env \<Rightarrow> user list \<Rightarrow> identity option \<Rightarrow> (string \<times> jsval) list \<Rightarrow> result" where
  "loginPost E db s b =
     (case validate (joi_email E) login_schema b of
        Inl e \<Rightarrow>
          \<lparr>r_users = db, r_session = s, r_calls = [Send 400 (JoiMessage e)], r_thrown = None\<rparr>
      | Inr v \<Rightarrow>
          (let found = findOne (\<lambda>d. email d = fld v ''email'') db;
               failed = (case found of
                           None \<Rightarrow> True
                         | Some d \<Rightarrow> \<not> bcrypt_compare E (fld v ''password'') (password d));
               rendered = (if failed
                           then [Render 200 ''login''
                                   [(''message'', LStr invalid_login), (''user'', LNull)]]
                           else [])
           in case found of
                None \<Rightarrow>
                  \<lparr>r_users = db, r_session = s, r_calls = rendered, r_thrown = Some TypeError\<rparr>
              | Some d \<Rightarrow>
                  \<lparr>r_users = db,
                   r_session = Some \<lparr>name = name d, email = email d, user_type = user_type d\<rparr>,
                   r_calls = rendered @ [Redirect ''/''], r_thrown = None\<rparr>))"

definition loginPost0 :: "env \<Rightarrow> user list \<Rightarrow> identity option \<Rightarrow> (string \<times> jsval) list \<Rightarrow> result" where
  "loginPost0 E db s b =
     (case validate (joi_email E) login_schema b of
        Inl e \<Rightarrow>
          \<lparr>r_users = db, r_session = s, r_calls = [Send 400 (JoiMessage e)], r_thrown = None\<rparr>
      | Inr v \<Rightarrow>
          (case findOne (\<lambda>d. email d = fld v ''email'') db of
             None \<Rightarrow>
               \<lparr>r_users = db, r_session = s,
                r_calls = [Render 200 ''login'' [(''message'', LStr invalid_login)]],
                r_thrown = None\<rparr>
           | Some d \<Rightarrow>
               (let passwordMatch = bcrypt_compare E (fld v ''password'') (password d)
                in if passwordMatch
                   then \<lparr>r_users = db,
                         r_session = Some \<lparr>name = name d, email = email d, user_type = None\<rparr>,
                         r_calls = [Redirect ''/''], r_thrown = None\<rparr>
                   else \<lparr>r_users = db, r_session = s,
                         r_calls = [Render 200 ''login'' [(''message'', LStr invalid_login)]],
                         r_thrown = None\<rparr>)))"

subsection \<open>The admin page and the role handlers\<close>

definition admin :: "user list \<Rightarrow> identity option \<Rightarrow> (string \<times> jsval) list \<Rightarrow> result" where
  "admin db s b =
     (let users = db
      in \<lparr>r_users = db, r_session = s,
          r_calls = [Render 200 ''admin'' [(''user'', lv_user s), (''users'', LUsers users)]],
          r_thrown = None\<rparr>)"

definition promote :: "env \<Rightarrow> user list \<Rightarrow> identity option \<Rightarrow> (string \<times> jsval) list \<Rightarrow> result" where
  "promote E db s b =
     \<lparr>r_users = updateOne (email_filter E (map_of b ''email''))
                  (\<lambda>d. d\<lparr>user_type := Some ''admin''\<rparr>) db,
      r_session = s, r_calls = [Redirect ''/admin''], r_thrown = None\<rparr>"

definition demote :: "env \<Rightarrow> user list \<Rightarrow> identity option \<Rightarrow> (string \<times> jsval) list \<Rightarrow> result" where
  "demote E db s b =
     \<lparr>r_users = updateOne (email_filter E (map_of b ''email''))
                  (\<lambda>d. d\<lparr>user_type := Some ''user''\<rparr>) db,
      r_session = s, r_calls = [Redirect ''/admin''], r_thrown = None\<rparr>"

section \<open>Requests and the session store\<close>

text \<open>
  The session store is a key-value store from session ids to the stored
  \<^verbatim>\<open>req.session.user\<close>; an expired session has been evicted, so it is absent. With
  \<^verbatim>\<open>saveUninitialized: false\<close> a session that was never written is not stored, and with
  \<^verbatim>\<open>resave: false\<close> only a session the handler changed is written back. A request
  carries \<^verbatim>\<open>req.sessionID\<close>, the id under which the session middleware looks its
  session up and stores it, and its parsed form; \<^verbatim>\<open>req.session.user\<close> is what the
  store holds under that id.
\<close>

record world =
  users :: "user list"
  sessions :: "string \<Rightarrow> identity option"

record request =
  sessionID :: string
  body :: "(string \<times> jsval) list"

definition save_session ::
  "(string \<Rightarrow> identity option) \<Rightarrow> string \<Rightarrow> identity option \<Rightarrow> identity option
     \<Rightarrow> (string \<Rightarrow> identity option)" where
  "save_session store sid before after = (if after = before then store else store(sid := after))"

definition serve ::
  "(user list \<Rightarrow> identity option \<Rightarrow> (string \<times> jsval) list \<Rightarrow> result)
     \<Rightarrow> world \<Rightarrow> request \<Rightarrow> world \<times> res_call list" where
  "serve handler w rq =
     (let s = sessions w (sessionID rq);
          r = handler (users w) s (body rq)
      in (\<lparr>users = r_users r,
           sessions = save_session (sessions w) (sessionID rq) s (r_session r)\<rparr>,
          r_calls r))"

text \<open>
  \<^verbatim>\<open>req.session.destroy(callback)\<close> removes the session from the store and hands the
  store's error, of which the model has none, to the callback. The callback of
  \<^verbatim>\<open>app.js\<close> ignores it; the other one logs it and redirects all the same.
\<close>

definition session_destroy ::
  "(string \<Rightarrow> identity option) \<Rightarrow> string \<Rightarrow> (string \<Rightarrow> identity option) \<times> string option" where
  "session_destroy store sid = (store(sid := None), None)"

definition logout :: "world \<Rightarrow> request \<Rightarrow> world \<times> res_call list" where
  "logout w rq =
     (case session_destroy (sessions w) (sessionID rq) of
        (store, err) \<Rightarrow> (w\<lparr>sessions := store\<rparr>, [Redirect ''/'']))"

definition logout0 :: "world \<Rightarrow> request \<Rightarrow> world \<times> res_call list" where
  "logout0 w rq =
     (case session_destroy (sessions w) (sessionID rq) of
        (store, err) \<Rightarrow>
          (w\<lparr>sessions := store\<rparr>,
           (case err of Some e \<Rightarrow> [Redirect ''/''] | None \<Rightarrow> [Redirect ''/''])))"

definition post_promote :: "env \<Rightarrow> world \<Rightarrow> request \<Rightarrow> world \<times> res_call list" where
  "post_promote E = serve (route admin_gates (promote E))"

definition post_demote :: "env \<Rightarrow> world \<Rightarrow> request \<Rightarrow> world \<times> res_call list" where
  "post_demote E = serve (route admin_gates (demote E))"

section \<open>Sample data\<close>

text \<open>
  A small environment and a few values on which the theorems below are run: a toy hasher
  that prefixes the password, and an email rule that asks for an \<open>@\<close> and for at most 254
  characters.
\<close>

definition sample_env :: env where
  "sample_env =
     \<lparr>bcrypt_hash = (\<lambda>p. ''#'' @ p),
      bcrypt_compare = (\<lambda>p h. h = ''#'' @ p),
      joi_email = (\<lambda>e. CHR ''@'' \<in> set e \<and> length e \<le> 254),
      mongo_operator = (\<lambda>ops e. False)\<rparr>"

definition alice :: user where
  "alice = \<lparr>name = ''Alice'', email = ''alice@x.com'', user_type = Some ''user'',
            password = ''#secret1''\<rparr>"

definition root :: user where
  "root = \<lparr>name = ''Root'', email = ''root@x.com'', user_type = Some ''admin'',
           password = ''#toor123''\<rparr>"

definition alice_form :: "(string \<times> jsval) list" where
  "alice_form = [(''name'', JStr ''Alice''), (''email'', JStr ''alice@x.com''),
                 (''password'', JStr ''secret1'')]"

definition short_form :: "(string \<times> jsval) list" where
  "short_form = [(''name'', JStr ''Bob''), (''email'', JStr ''alice@x.com''),
                 (''password'', JStr ''abc'')]"

definition alice_login :: "(string \<times> jsval) list" where
  "alice_login = [(''email'', JStr ''alice@x.com''), (''password'', JStr ''secret1'')]"

definition wrong_login :: "(string \<times> jsval) list" where
  "wrong_login = [(''email'', JStr ''alice@x.com''), (''password'', JStr ''wrong1'')]"

definition nobody_login :: "(string \<times> jsval) list" where
  "nobody_login = [(''email'', JStr ''bob@x.com''), (''password'', JStr ''secret1'')]"

definition root_identity :: identity where
  "root_identity = \<lparr>name = ''Root'', email = ''root@x.com'', user_type = Some ''admin''\<rparr>"

definition alice_identity :: identity where
  "alice_identity = \<lparr>name = ''Alice'', email = ''alice@x.com'', user_type = Some ''user''\<rparr>"

definition sample_world :: world where
  "sample_world =
     \<lparr>users = [root, alice],
      sessions = (\<lambda>sid. None)(''s1'' := Some root_identity, ''s2'' := Some alice_identity)\<rparr>"

definition promote_alice :: request where
  "promote_alice = \<lparr>sessionID = ''s1'', body = [(''email'', JStr ''alice@x.com'')]\<rparr>"

definition promote_nobody :: "(string \<times> jsval) list" where
  "promote_nobody = [(''email'', JStr ''nobody@x.com'')]"

definition logout_alice :: request where
  "logout_alice = \<lparr>sessionID = ''s2'', body = []\<rparr>"

text \<open>
  Joi's \<open>email()\<close> rule rejects an address that is too long by itself; the schema of
  \<^verbatim>\<open>app.js\<close> sets no other bound on the email. The property that the rule accepts no
  address of more than 255 characters is named here.
\<close>

definition email_rule_bounded :: "env \<Rightarrow> bool" where
  "email_rule_bounded E = (\<forall>e. joi_email E e \<longrightarrow> length e \<le> 255)"

section \<open>Lemmas on validation and the collection\<close>

lemma joi_string_Inr:
  "joi_string ok k rs x = Inr s \<longleftrightarrow> x = Some (JStr s) \<and> s \<noteq> [] \<and> check_rules ok k rs s = None"
  by (cases "(ok, k, rs, x)" rule: joi_string.cases) (auto split: option.splits)

lemma validate_Inr:
  "validate ok sch b = Inr v \<longleftrightarrow>
     validate_keys ok sch b = Inr v \<and> filter (\<lambda>k. k \<notin> set (map fst sch)) (map fst b) = []"
  by (auto simp: validate_def split: sum.splits list.splits)

lemma validate_Inl:
  "validate_keys ok sch b = Inl e \<Longrightarrow> validate ok sch b = Inl e"
  by (simp add: validate_def)

lemma validate_signup:
  assumes "validate ok signup_schema b = Inr v"
  shows "\<exists>n e p. v = [(''name'', n), (''email'', e), (''password'', p)]
           \<and> map_of b ''name'' = Some (JStr n) \<and> map_of b ''email'' = Some (JStr e)
           \<and> map_of b ''password'' = Some (JStr p)
           \<and> n \<noteq> [] \<and> length n \<le> 255 \<and> e \<noteq> [] \<and> ok e \<and> 6 \<le> length p"
  using assms
  by (auto simp: validate_Inr signup_schema_def joi_string_Inr split: sum.splits if_splits)

lemma validate_signup0:
  assumes "validate ok signup_schema0 b = Inr v"
  shows "\<exists>n e p. v = [(''name'', n), (''email'', e), (''password'', p)]
           \<and> map_of b ''name'' = Some (JStr n) \<and> map_of b ''email'' = Some (JStr e)
           \<and> map_of b ''password'' = Some (JStr p)
           \<and> n \<noteq> [] \<and> length n \<le> 255 \<and> e \<noteq> [] \<and> ok e \<and> length e \<le> 255
           \<and> 6 \<le> length p \<and> length p \<le> 255"
  using assms
  by (auto simp: validate_Inr signup_schema0_def joi_string_Inr split: sum.splits if_splits)

lemma validate_login:
  assumes "validate ok login_schema b = Inr v"
  shows "\<exists>e p. v = [(''email'', e), (''password'', p)]
           \<and> map_of b ''email'' = Some (JStr e) \<and> map_of b ''password'' = Some (JStr p)
           \<and> e \<noteq> [] \<and> ok e \<and> p \<noteq> []"
  using assms
  by (auto simp: validate_Inr login_schema_def joi_string_Inr split: sum.splits if_splits)

lemma findOne_None: "findOne p db = None \<longleftrightarrow> (\<forall>d\<in>set db. \<not> p d)"
  by (auto simp: findOne_def find_None_iff)

lemma findOne_Some: "findOne p db = Some d \<Longrightarrow> d \<in> set db \<and> p d"
  by (auto simp: findOne_def find_Some_iff)

lemma sample_env_bcrypt:
  "bcrypt_hash sample_env p = ''#'' @ p"
  "bcrypt_compare sample_env p h \<longleftrightarrow> h = ''#'' @ p"
  by (simp_all add: sample_env_def)

lemma sample_validate_signup:
  "validate (joi_email sample_env) signup_schema alice_form
     = Inr [(''name'', ''Alice''), (''email'', ''alice@x.com''), (''password'', ''secret1'')]"
  by (simp add: validate_def signup_schema_def alice_form_def sample_env_def)

lemma sample_validate_signup0:
  "validate (joi_email sample_env) signup_schema0 alice_form
     = Inr [(''name'', ''Alice''), (''email'', ''alice@x.com''), (''password'', ''secret1'')]"
  by (simp add: validate_def signup_schema0_def alice_form_def sample_env_def)

lemma gates_members: "run_gates members_gates s = None \<longleftrightarrow> authorize_spec s None"
  by (simp add: members_gates_def isLoggedIn_def authorize_spec_def split: option.splits)

lemma gates_admin: "run_gates admin_gates s = None \<longleftrightarrow> authorize_spec s (Some ''admin'')"
  by (simp add: admin_gates_def isLoggedIn_def isAdmin_def authorize_spec_def split: option.splits)

lemma sample_email_rule_bounded: "email_rule_bounded sample_env"
  by (simp add: email_rule_bounded_def sample_env_def)

lemma sample_validate_login:
  "validate (joi_email sample_env) login_schema wrong_login
     = Inr [(''email'', ''alice@x.com''), (''password'', ''wrong1'')]"
  "validate (joi_email sample_env) login_schema nobody_login
     = Inr [(''email'', ''bob@x.com''), (''password'', ''secret1'')]"
  "validate (joi_email sample_env) login_schema alice_login
     = Inr [(''email'', ''alice@x.com''), (''password'', ''secret1'')]"
  by (simp_all add: validate_def login_schema_def wrong_login_def nobody_login_def
      alice_login_def sample_env_def)

lemma sample_find:
  "findOne (\<lambda>d. email d = ''alice@x.com'') [alice] = Some alice"
  "findOne (\<lambda>d. email d = ''bob@x.com'') [alice] = None"
  by (simp_all add: findOne_def alice_def)

lemma alice_found: "findOne (\<lambda>d. email d = ''alice@x.com'') [alice] \<noteq> None"
  by (simp add: findOne_def alice_def)

lemma nobody_absent: "findOne (\<lambda>d. email d = ''nobody@x.com'') [root, alice] = None"
  by (simp add: findOne_def root_def alice_def)

lemma root_passes: "run_gates admin_gates (Some root_identity) = None"
  by (simp add: admin_gates_def isLoggedIn_def isAdmin_def root_identity_def)

lemma signup_invalid:
  assumes "map_of b ''name'' = Some (JStr n)" "map_of b ''email'' = Some (JStr e)"
    "map_of b ''password'' = Some (JStr p)"
    and "n = [] \<or> 255 < length n \<or> \<not> ok e \<or> length p < 6"
  shows "\<exists>err. validate ok signup_schema b = Inl err"
proof -
  have "\<exists>err. validate_keys ok signup_schema b = Inl err"
    using assms by (auto simp: signup_schema_def split: sum.splits)
  then show ?thesis by (auto dest: validate_Inl)
qed

lemma signup0_invalid:
  assumes "map_of b ''name'' = Some (JStr n)" "map_of b ''email'' = Some (JStr e)"
    "map_of b ''password'' = Some (JStr p)"
    and "n = [] \<or> 255 < length n \<or> \<not> ok e \<or> 255 < length e \<or> length p < 6"
  shows "\<exists>err. validate ok signup_schema0 b = Inl err"
proof -
  have "\<exists>err. validate_keys ok signup_schema0 b = Inl err"
    using assms by (auto simp: signup_schema0_def split: sum.splits)
  then show ?thesis by (auto dest: validate_Inl)
qed

lemma signupPost_duplicate:
  assumes "map_of b ''email'' = Some (JStr e)" "findOne (\<lambda>d. email d = e) db \<noteq> None"
  shows "r_users (signupPost E db s b) = db \<and> r_session (signupPost E db s b) = s
       \<and> r_thrown (signupPost E db s b) = None
       \<and> (\<exists>pl. r_calls (signupPost E db s b) = [Send 400 pl])
       \<and> (\<forall>v. validate (joi_email E) signup_schema b = Inr v \<longrightarrow>
            r_calls (signupPost E db s b) = [Send 400 (Text ''Email already exists'')])"
proof (cases "validate (joi_email E) signup_schema b")
  case (Inl err)
  then show ?thesis by (simp add: signupPost_def)
next
  case (Inr v)
  from validate_signup [OF Inr] assms have "fld v ''email'' = e"
    by (auto simp: fld_def)
  with assms Inr show ?thesis by (auto simp: signupPost_def)
qed

lemma signupPost0_duplicate:
  assumes "map_of b ''email'' = Some (JStr e)" "findOne (\<lambda>d. email d = e) db \<noteq> None"
  shows "r_users (signupPost0 E db s b) = db \<and> r_session (signupPost0 E db s b) = s
       \<and> r_thrown (signupPost0 E db s b) = None
       \<and> (\<exists>pl. r_calls (signupPost0 E db s b) = [Send 400 pl])
       \<and> (\<forall>v. validate (joi_email E) signup_schema0 b = Inr v \<longrightarrow>
            r_calls (signupPost0 E db s b) = [Send 400 (Text ''Email already exists'')])"
proof (cases "validate (joi_email E) signup_schema0 b")
  case (Inl err)
  then show ?thesis by (simp add: signupPost0_def)
next
  case (Inr v)
  from validate_signup0 [OF Inr] assms have "fld v ''email'' = e"
    by (auto simp: fld_def)
  with assms Inr show ?thesis by (auto simp: signupPost0_def)
qed

lemma updateOne_length: "length (updateOne p f db) = length db"
  by (induction db) simp_all

lemma updateOne_map: "(\<And>d. g (f d) = g d) \<Longrightarrow> map g (updateOne p f db) = map g db"
  by (induction db) simp_all

lemma updateOne_no_match: "(\<forall>d\<in>set db. \<not> p d) \<Longrightarrow> updateOne p f db = db"
  by (induction db) simp_all

lemma updateOne_nth:
  "i < length db \<Longrightarrow> updateOne p f db ! i = db ! i \<or> (p (db ! i) \<and> updateOne p f db ! i = f (db ! i))"
proof (induction db arbitrary: i)
  case Nil
  then show ?case by simp
next
  case (Cons d ds)
  then show ?case by (cases i) auto
qed

lemma updateOne_single:
  "i < length db \<Longrightarrow> j < length db \<Longrightarrow> updateOne p f db ! i \<noteq> db ! i
     \<Longrightarrow> updateOne p f db ! j \<noteq> db ! j \<Longrightarrow> i = j"
proof (induction db arbitrary: i j)
  case Nil
  then show ?case by simp
next
  case (Cons d ds)
  show ?case
  proof (cases "p d")
    case True
    with Cons.prems show ?thesis by (cases i; cases j) auto
  next
    case False
    with Cons.prems Cons.IH show ?thesis by (cases i; cases j) auto
  qed
qed

lemma updateOne_findOne:
  "(\<And>d. q (f d) = q d) \<Longrightarrow> findOne q (updateOne q f db) = map_option f (findOne q db)"
  by (induction db) (simp_all add: findOne_def)

lemma route_promote:
  "route admin_gates (promote E) db s b
     = (case run_gates admin_gates s of
          Some r \<Rightarrow> \<lparr>r_users = db, r_session = s, r_calls = [r], r_thrown = None\<rparr>
        | None \<Rightarrow>
            \<lparr>r_users = updateOne (email_filter E (map_of b ''email''))
                         (\<lambda>d. d\<lparr>user_type := Some ''admin''\<rparr>) db,
             r_session = s, r_calls = [Redirect ''/admin''], r_thrown = None\<rparr>)"
  by (simp add: route_def promote_def split: option.splits)

lemma route_demote:
  "route admin_gates (demote E) db s b
     = (case run_gates admin_gates s of
          Some r \<Rightarrow> \<lparr>r_users = db, r_session = s, r_calls = [r], r_thrown = None\<rparr>
        | None \<Rightarrow>
            \<lparr>r_users = updateOne (email_filter E (map_of b ''email''))
                         (\<lambda>d. d\<lparr>user_type := Some ''user''\<rparr>) db,
             r_session = s, r_calls = [Redirect ''/admin''], r_thrown = None\<rparr>)"
  by (simp add: route_def demote_def split: option.splits)

lemma post_setRole:
  assumes "(op, role) = (post_promote E, ''admin'') \<or> (op, role) = (post_demote E, ''user'')"
  shows "sessions (fst (op w rq)) = sessions w"
    and "users (fst (op w rq))
           = (if run_gates admin_gates (sessions w (sessionID rq)) = None
              then updateOne (email_filter E (map_of (body rq) ''email''))
                     (\<lambda>d. d\<lparr>user_type := Some role\<rparr>) (users w)
              else users w)"
  using assms
  by (auto simp: post_promote_def post_demote_def serve_def Let_def save_session_def
      route_promote route_demote split: option.splits)

lemma logout_eq: "logout w rq = (w\<lparr>sessions := (sessions w)(sessionID rq := None)\<rparr>, [Redirect ''/''])"
  by (simp add: logout_def session_destroy_def)

lemma logout0_eq: "logout0 w rq = (w\<lparr>sessions := (sessions w)(sessionID rq := None)\<rparr>, [Redirect ''/''])"
  by (simp add: logout0_def session_destroy_def)

lemma serve_denied:
  "sessions w (sessionID rq) = None \<Longrightarrow>
     serve (route members_gates h) w rq = (w, [Redirect ''/login''])
     \<and> serve (route admin_gates h) w rq = (w, [Redirect ''/login''])"
  by (simp add: serve_def route_def members_gates_def admin_gates_def isLoggedIn_def
      save_session_def)

section \<open>The gates (C4)\<close>

text \<open>
  C4. The gate in front of the members page lets a request pass exactly when the rule of the
  specification allows it with no required role, and the gate in front of the admin routes
  exactly when the rule allows it with the required role \<open>admin\<close>; these are the two
  requirements the route table uses. A session whose role is \<open>user\<close> is stopped at the
  admin gate, a session whose role is \<open>admin\<close> passes it, and a request without a session
  is stopped at both.
\<close>

theorem authorize_iff:
  "(run_gates members_gates s = None \<longleftrightarrow> authorize_spec s None)
   \<and> (run_gates admin_gates s = None \<longleftrightarrow> authorize_spec s (Some ''admin''))
   \<and> (user_type u = Some ''user'' \<longrightarrow> run_gates admin_gates (Some u) \<noteq> None)
   \<and> (user_type a = Some ''admin'' \<longrightarrow> run_gates admin_gates (Some a) = None)
   \<and> run_gates members_gates None \<noteq> None
   \<and> run_gates admin_gates None \<noteq> None"
  by (simp add: gates_members gates_admin authorize_spec_def)

theorem authorize_iff_witness:
  "run_gates admin_gates (Some \<lparr>name = ''Al'', email = ''al@x.com'', user_type = Some ''user''\<rparr>) \<noteq> None
   \<and> run_gates admin_gates (Some \<lparr>name = ''Bo'', email = ''bo@x.com'', user_type = Some ''admin''\<rparr>) = None
   \<and> run_gates members_gates (Some \<lparr>name = ''Al'', email = ''al@x.com'', user_type = Some ''user''\<rparr>) = None"
  using authorize_iff [of "Some \<lparr>name = ''Al'', email = ''al@x.com'', user_type = Some ''user''\<rparr>"
      "\<lparr>name = ''Al'', email = ''al@x.com'', user_type = Some ''user''\<rparr>"
      "\<lparr>name = ''Bo'', email = ''bo@x.com'', user_type = Some ''admin''\<rparr>"]
  by (simp add: authorize_spec_def)

section \<open>Signup (C3)\<close>

text \<open>
  C3, as the code has it. Every successful signup, that is, every call that ends in the
  redirect to the members page, appends one document to the collection whose name and email
  are the submitted ones and whose stored password is the output of the hasher on the
  submitted password; the session then holds exactly the name, the email and the role of
  that document. In \<^verbatim>\<open>app.js\<close> the role of the document is \<open>user\<close>; in the variant
  without roles neither the document nor the session has one.
\<close>

theorem register_success:
  "(r_calls (signupPost E db s b) = [Redirect ''/members''] \<longrightarrow>
      (\<exists>n e p d. map_of b ''name'' = Some (JStr n) \<and> map_of b ''email'' = Some (JStr e)
         \<and> map_of b ''password'' = Some (JStr p)
         \<and> r_users (signupPost E db s b) = db @ [d]
         \<and> name d = n \<and> email d = e \<and> user_type d = Some ''user''
         \<and> password d = bcrypt_hash E p
         \<and> r_session (signupPost E db s b)
             = Some \<lparr>name = name d, email = email d, user_type = user_type d\<rparr>))
   \<and> (r_calls (signupPost0 E db s b) = [Redirect ''/members''] \<longrightarrow>
      (\<exists>n e p d. map_of b ''name'' = Some (JStr n) \<and> map_of b ''email'' = Some (JStr e)
         \<and> map_of b ''password'' = Some (JStr p)
         \<and> r_users (signupPost0 E db s b) = db @ [d]
         \<and> name d = n \<and> email d = e \<and> user_type d = None
         \<and> password d = bcrypt_hash E p
         \<and> r_session (signupPost0 E db s b)
             = Some \<lparr>name = name d, email = email d, user_type = user_type d\<rparr>))"
proof (intro conjI impI)
  assume ok: "r_calls (signupPost E db s b) = [Redirect ''/members'']"
  then obtain v where v: "validate (joi_email E) signup_schema b = Inr v"
    and nf: "findOne (\<lambda>d. email d = fld v ''email'') db = None"
    by (auto simp: signupPost_def split: sum.splits option.splits)
  from validate_signup [OF v] obtain n e p where
    "v = [(''name'', n), (''email'', e), (''password'', p)]"
    "map_of b ''name'' = Some (JStr n)" "map_of b ''email'' = Some (JStr e)"
    "map_of b ''password'' = Some (JStr p)" by blast
  with v nf show "\<exists>n e p d. map_of b ''name'' = Some (JStr n) \<and> map_of b ''email'' = Some (JStr e)
         \<and> map_of b ''password'' = Some (JStr p)
         \<and> r_users (signupPost E db s b) = db @ [d]
         \<and> name d = n \<and> email d = e \<and> user_type d = Some ''user''
         \<and> password d = bcrypt_hash E p
         \<and> r_session (signupPost E db s b)
             = Some \<lparr>name = name d, email = email d, user_type = user_type d\<rparr>"
    by (simp add: signupPost_def insertOne_def fld_def)
next
  assume ok: "r_calls (signupPost0 E db s b) = [Redirect ''/members'']"
  then obtain v where v: "validate (joi_email E) signup_schema0 b = Inr v"
    and nf: "findOne (\<lambda>d. email d = fld v ''email'') db = None"
    by (auto simp: signupPost0_def split: sum.splits option.splits)
  from validate_signup0 [OF v] obtain n e p where
    "v = [(''name'', n), (''email'', e), (''password'', p)]"
    "map_of b ''name'' = Some (JStr n)" "map_of b ''email'' = Some (JStr e)"
    "map_of b ''password'' = Some (JStr p)" by blast
  with v nf show "\<exists>n e p d. map_of b ''name'' = Some (JStr n) \<and> map_of b ''email'' = Some (JStr e)
         \<and> map_of b ''password'' = Some (JStr p)
         \<and> r_users (signupPost0 E db s b) = db @ [d]
         \<and> name d = n \<and> email d = e \<and> user_type d = None
         \<and> password d = bcrypt_hash E p
         \<and> r_session (signupPost0 E db s b)
             = Some \<lparr>name = name d, email = email d, user_type = user_type d\<rparr>"
    by (simp add: signupPost0_def insertOne_def fld_def)
qed

theorem register_success_witness:
  "r_calls (signupPost sample_env [] None alice_form) = [Redirect ''/members'']
   \<and> r_calls (signupPost0 sample_env [] None alice_form) = [Redirect ''/members'']
   \<and> (\<exists>d. r_users (signupPost sample_env [] None alice_form) = [d]
         \<and> user_type d = Some ''user'' \<and> password d = ''#secret1''
         \<and> r_session (signupPost sample_env [] None alice_form)
             = Some \<lparr>name = name d, email = email d, user_type = user_type d\<rparr>)"
proof -
  have a: "r_calls (signupPost sample_env [] None alice_form) = [Redirect ''/members'']"
    by (simp add: signupPost_def sample_validate_signup findOne_def)
  have b: "r_calls (signupPost0 sample_env [] None alice_form) = [Redirect ''/members'']"
    by (simp add: signupPost0_def sample_validate_signup0 findOne_def)
  from register_success [of sample_env "[]" None alice_form] a b
  show ?thesis by (auto simp: sample_env_bcrypt alice_form_def)
qed

text \<open>
  C3 as the specification states it asks for the role \<open>user\<close> on every new document. The
  signup of the variant without roles succeeds on the sample form and stores a document
  that has no role.
\<close>

theorem signupPost0_record_without_role:
  "r_calls (signupPost0 sample_env [] None alice_form) = [Redirect ''/members'']
   \<and> r_users (signupPost0 sample_env [] None alice_form)
       = [\<lparr>name = ''Alice'', email = ''alice@x.com'', user_type = None,
           password = ''#secret1''\<rparr>]
   \<and> user_type (last (r_users (signupPost0 sample_env [] None alice_form))) \<noteq> Some ''user''"
  by (simp add: signupPost0_def sample_validate_signup0 findOne_def insertOne_def fld_def
      sample_env_bcrypt)

section \<open>The admin page (C10)\<close>

text \<open>
  C10. For every request that passes the admin gate, the admin handler reads the whole
  collection and hands it to the view as it is: the list passed under \<open>users\<close> is the
  list of stored documents, each with all its properties, the stored password hash among
  them. The collection and the session are left as they were.
\<close>

theorem admin_passes_full_records:
  "run_gates admin_gates s = None \<Longrightarrow>
     route admin_gates admin db s b
       = \<lparr>r_users = db, r_session = s,
          r_calls = [Render 200 ''admin'' [(''user'', lv_user s), (''users'', LUsers db)]],
          r_thrown = None\<rparr>"
  by (simp add: route_def admin_def)

theorem admin_passes_full_records_witness:
  "run_gates admin_gates (Some \<lparr>name = ''Root'', email = ''root@x.com'', user_type = Some ''admin''\<rparr>) = None
   \<and> r_calls (route admin_gates admin [root, alice]
        (Some \<lparr>name = ''Root'', email = ''root@x.com'', user_type = Some ''admin''\<rparr>) [])
      = [Render 200 ''admin''
          [(''user'', LIdentity \<lparr>name = ''Root'', email = ''root@x.com'', user_type = Some ''admin''\<rparr>),
           (''users'', LUsers
              [\<lparr>name = ''Root'', email = ''root@x.com'', user_type = Some ''admin'',
                password = ''#toor123''\<rparr>,
               \<lparr>name = ''Alice'', email = ''alice@x.com'', user_type = Some ''user'',
                password = ''#secret1''\<rparr>])]]"
proof -
  have g: "run_gates admin_gates
             (Some \<lparr>name = ''Root'', email = ''root@x.com'', user_type = Some ''admin''\<rparr>) = None"
    by (simp add: admin_gates_def isLoggedIn_def isAdmin_def)
  from admin_passes_full_records [OF g, of "[root, alice]" "[]"] g
  show ?thesis by (simp add: lv_user_def root_def alice_def)
qed

section \<open>Rejected signups (C7, C8)\<close>

text \<open>
  C7. A signup whose name is empty or longer than 255 characters, whose email fails the
  email rule or is longer than 255 characters, or whose password is shorter than 6
  characters is answered with status 400 and the message of the validation error; no
  document is inserted and the session is left as it was. The schema of the variant without
  roles sets the bound on the email itself; the schema of \<^verbatim>\<open>app.js\<close> leaves the
  length of the email to the email rule, so there an email that is too long is rejected
  because the email rule accepts no such address.
\<close>

theorem register_rejects_invalid:
  assumes "map_of b ''name'' = Some (JStr n)" "map_of b ''email'' = Some (JStr e)"
    "map_of b ''password'' = Some (JStr p)"
  shows "(n = [] \<or> 255 < length n \<or> \<not> joi_email E e \<or> 255 < length e \<or> length p < 6
            \<longrightarrow> (\<exists>err. signupPost0 E db s b
                   = \<lparr>r_users = db, r_session = s, r_calls = [Send 400 (JoiMessage err)],
                      r_thrown = None\<rparr>))
       \<and> (n = [] \<or> 255 < length n \<or> \<not> joi_email E e
            \<or> (email_rule_bounded E \<and> 255 < length e) \<or> length p < 6
            \<longrightarrow> (\<exists>err. signupPost E db s b
                   = \<lparr>r_users = db, r_session = s, r_calls = [Send 400 (JoiMessage err)],
                      r_thrown = None\<rparr>))"
proof (intro conjI impI)
  assume "n = [] \<or> 255 < length n \<or> \<not> joi_email E e \<or> 255 < length e \<or> length p < 6"
  from signup0_invalid [where ok = "joi_email E", OF assms this] obtain err
    where "validate (joi_email E) signup_schema0 b = Inl err" by blast
  then show "\<exists>err. signupPost0 E db s b
            = \<lparr>r_users = db, r_session = s, r_calls = [Send 400 (JoiMessage err)],
               r_thrown = None\<rparr>"
    by (simp add: signupPost0_def)
next
  assume "n = [] \<or> 255 < length n \<or> \<not> joi_email E e
            \<or> (email_rule_bounded E \<and> 255 < length e) \<or> length p < 6"
  then have "n = [] \<or> 255 < length n \<or> \<not> joi_email E e \<or> length p < 6"
    by (auto simp: email_rule_bounded_def)
  from signup_invalid [where ok = "joi_email E", OF assms this] obtain err
    where "validate (joi_email E) signup_schema b = Inl err" by blast
  then show "\<exists>err. signupPost E db s b
            = \<lparr>r_users = db, r_session = s, r_calls = [Send 400 (JoiMessage err)],
               r_thrown = None\<rparr>"
    by (simp add: signupPost_def)
qed

theorem register_rejects_invalid_witness:
  "length ''abc'' < 6 \<and> email_rule_bounded sample_env
   \<and> signupPost0 sample_env [alice] None short_form
       = \<lparr>r_users = [alice], r_session = None,
          r_calls = [Send 400 (JoiMessage (StringMin ''password'' 6))], r_thrown = None\<rparr>
   \<and> signupPost sample_env [alice] None short_form
       = \<lparr>r_users = [alice], r_session = None,
          r_calls = [Send 400 (JoiMessage (StringMin ''password'' 6))], r_thrown = None\<rparr>"
proof -
  have f: "map_of short_form ''name'' = Some (JStr ''Bob'')"
    "map_of short_form ''email'' = Some (JStr ''alice@x.com'')"
    "map_of short_form ''password'' = Some (JStr ''abc'')"
    by (simp_all add: short_form_def)
  have bad: "length ''abc'' < 6" by simp
  have v: "validate (joi_email sample_env) signup_schema short_form = Inl (StringMin ''password'' 6)"
    "validate (joi_email sample_env) signup_schema0 short_form = Inl (StringMin ''password'' 6)"
    by (simp_all add: validate_def signup_schema_def signup_schema0_def short_form_def sample_env_def)
  from register_rejects_invalid [OF f, of sample_env "[alice]" None] bad
    sample_email_rule_bounded v
  show ?thesis by (simp add: signupPost_def signupPost0_def)
qed

text \<open>
  C8, as the code has it. A signup whose email is already stored is answered with
  status 400, inserts nothing and leaves the session as it was, whatever else the form
  holds; when the form passes validation the answer is \<open>Email already exists\<close>. Since
  such a call inserts nothing, the emails of the collection are as distinct after it as
  they were before it.
\<close>

theorem register_duplicate:
  assumes "map_of b ''email'' = Some (JStr e)" "findOne (\<lambda>d. email d = e) db \<noteq> None"
  shows "r_users (signupPost E db s b) = db \<and> r_session (signupPost E db s b) = s
       \<and> (\<exists>pl. r_calls (signupPost E db s b) = [Send 400 pl])
       \<and> (\<forall>v. validate (joi_email E) signup_schema b = Inr v \<longrightarrow>
            r_calls (signupPost E db s b) = [Send 400 (Text ''Email already exists'')])
       \<and> r_users (signupPost0 E db s b) = db \<and> r_session (signupPost0 E db s b) = s
       \<and> (\<exists>pl. r_calls (signupPost0 E db s b) = [Send 400 pl])
       \<and> (\<forall>v. validate (joi_email E) signup_schema0 b = Inr v \<longrightarrow>
            r_calls (signupPost0 E db s b) = [Send 400 (Text ''Email already exists'')])
       \<and> (distinct (map email db) \<longrightarrow>
            distinct (map email (r_users (signupPost E db s b)))
            \<and> distinct (map email (r_users (signupPost0 E db s b))))"
  using signupPost_duplicate [OF assms, of E s] signupPost0_duplicate [OF assms, of E s]
  by simp

theorem register_duplicate_witness:
  "map_of alice_form ''email'' = Some (JStr ''alice@x.com'')
   \<and> findOne (\<lambda>d. email d = ''alice@x.com'') [alice] \<noteq> None
   \<and> signupPost sample_env [alice] None alice_form
       = \<lparr>r_users = [alice], r_session = None,
          r_calls = [Send 400 (Text ''Email already exists'')], r_thrown = None\<rparr>
   \<and> r_calls (signupPost0 sample_env [alice] None alice_form)
       = [Send 400 (Text ''Email already exists'')]
   \<and> distinct (map email (r_users (signupPost sample_env [alice] None alice_form)))"
proof -
  have m: "map_of alice_form ''email'' = Some (JStr ''alice@x.com'')"
    by (simp add: alice_form_def)
  have d: "distinct (map email [alice])" by simp
  from register_duplicate [OF m alice_found, of sample_env None]
    sample_validate_signup sample_validate_signup0 m alice_found d
  show ?thesis
    by (simp add: signupPost_def fld_def findOne_def alice_def)
qed

text \<open>
  C8 as the specification states it promises the duplicate-account error for every signup
  with a stored email. Validation runs first: a form with Alice's stored email and a
  password of three characters is answered with the validation error.
\<close>

theorem signupPost_invalid_duplicate:
  "findOne (\<lambda>d. email d = ''alice@x.com'') [alice] = Some alice
   \<and> map_of short_form ''email'' = Some (JStr ''alice@x.com'')
   \<and> signupPost sample_env [alice] None short_form
       = \<lparr>r_users = [alice], r_session = None,
          r_calls = [Send 400 (JoiMessage (StringMin ''password'' 6))], r_thrown = None\<rparr>
   \<and> r_calls (signupPost sample_env [alice] None short_form)
       \<noteq> [Send 400 (Text ''Email already exists'')]"
proof -
  have v: "validate (joi_email sample_env) signup_schema short_form
             = Inl (StringMin ''password'' 6)"
    by (simp add: validate_def signup_schema_def short_form_def sample_env_def)
  have m: "map_of short_form ''email'' = Some (JStr ''alice@x.com'')"
    by (simp add: short_form_def)
  have f: "findOne (\<lambda>d. email d = ''alice@x.com'') [alice] = Some alice"
    by (simp add: findOne_def alice_def)
  show ?thesis
    by (simp add: signupPost_def v m f)
qed

section \<open>Login (C1, C2)\<close>

text \<open>
  What the two login handlers do on a form that passes validation. The handler of the
  variant without roles returns after the failure view and touches the session only when
  the password verifies. The handler of \<^verbatim>\<open>app.js\<close> renders the same failure view
  first and then runs on.
\<close>

lemma loginPost0_failure:
  assumes "validate (joi_email E) login_schema b = Inr v"
    and "findOne (\<lambda>d. email d = fld v ''email'') db = None
         \<or> (\<exists>d. findOne (\<lambda>d. email d = fld v ''email'') db = Some d
               \<and> \<not> bcrypt_compare E (fld v ''password'') (password d))"
  shows "loginPost0 E db s b
           = \<lparr>r_users = db, r_session = s,
              r_calls = [Render 200 ''login'' [(''message'', LStr invalid_login)]],
              r_thrown = None\<rparr>"
  using assms by (auto simp: loginPost0_def)

lemma loginPost0_success:
  assumes "validate (joi_email E) login_schema b = Inr v"
    and "findOne (\<lambda>d. email d = fld v ''email'') db = Some d"
    and "bcrypt_compare E (fld v ''password'') (password d)"
  shows "loginPost0 E db s b
           = \<lparr>r_users = db,
              r_session = Some \<lparr>name = name d, email = email d, user_type = None\<rparr>,
              r_calls = [Redirect ''/''], r_thrown = None\<rparr>"
  using assms by (simp add: loginPost0_def)

lemma loginPost0_session_only_verified:
  assumes "r_session (loginPost0 E db s b) \<noteq> s"
  shows "\<exists>v d. validate (joi_email E) login_schema b = Inr v
           \<and> findOne (\<lambda>d. email d = fld v ''email'') db = Some d
           \<and> bcrypt_compare E (fld v ''password'') (password d)
           \<and> r_session (loginPost0 E db s b)
               = Some \<lparr>name = name d, email = email d, user_type = None\<rparr>"
  using assms by (auto simp: loginPost0_def Let_def split: sum.splits option.splits if_splits)

lemma loginPost_success:
  assumes "validate (joi_email E) login_schema b = Inr v"
    and "findOne (\<lambda>d. email d = fld v ''email'') db = Some d"
    and "bcrypt_compare E (fld v ''password'') (password d)"
  shows "loginPost E db s b
           = \<lparr>r_users = db,
              r_session = Some \<lparr>name = name d, email = email d, user_type = user_type d\<rparr>,
              r_calls = [Redirect ''/''], r_thrown = None\<rparr>"
  using assms by (simp add: loginPost_def)

lemma loginPost_no_user:
  assumes "validate (joi_email E) login_schema b = Inr v"
    and "findOne (\<lambda>d. email d = fld v ''email'') db = None"
  shows "loginPost E db s b
           = \<lparr>r_users = db, r_session = s,
              r_calls = [Render 200 ''login''
                           [(''message'', LStr invalid_login), (''user'', LNull)]],
              r_thrown = Some TypeError\<rparr>"
  using assms by (simp add: loginPost_def)

lemma loginPost_wrong_password:
  assumes "validate (joi_email E) login_schema b = Inr v"
    and "findOne (\<lambda>d. email d = fld v ''email'') db = Some d"
    and "\<not> bcrypt_compare E (fld v ''password'') (password d)"
  shows "loginPost E db s b
           = \<lparr>r_users = db,
              r_session = Some \<lparr>name = name d, email = email d, user_type = user_type d\<rparr>,
              r_calls = [Render 200 ''login''
                           [(''message'', LStr invalid_login), (''user'', LNull)],
                         Redirect ''/''],
              r_thrown = None\<rparr>"
  using assms by (simp add: loginPost_def)

lemma loginPost0_same_failure:
  assumes "validate (joi_email E) login_schema b1 = Inr v1"
    and "validate (joi_email E) login_schema b2 = Inr v2"
    and "findOne (\<lambda>d. email d = fld v1 ''email'') db = Some d"
    and "\<not> bcrypt_compare E (fld v1 ''password'') (password d)"
    and "findOne (\<lambda>d. email d = fld v2 ''email'') db = None"
  shows "loginPost0 E db s b1 = loginPost0 E db s b2"
  using assms by (simp add: loginPost0_failure)

text \<open>
  C1. The specification asks that a login with a wrong password establishes no session.
  In \<^verbatim>\<open>app.js\<close>, with Alice stored and a wrong password submitted, the handler
  renders the failure view, then stores Alice's identity in the session and calls the
  redirect.
\<close>

theorem loginPost_wrong_password_sets_session:
  "\<not> bcrypt_compare sample_env ''wrong1'' (password alice)
   \<and> loginPost sample_env [alice] None wrong_login
       = \<lparr>r_users = [alice],
          r_session = Some \<lparr>name = ''Alice'', email = ''alice@x.com'', user_type = Some ''user''\<rparr>,
          r_calls = [Render 200 ''login''
                       [(''message'', LStr ''Invalid email/password combination''),
                        (''user'', LNull)],
                     Redirect ''/''],
          r_thrown = None\<rparr>"
  by (simp add: loginPost_def sample_validate_login fld_def sample_find sample_env_bcrypt
      invalid_login_def) (simp add: alice_def)

text \<open>
  C2. The specification asks that an unknown email and a wrong password fail alike. In
  \<^verbatim>\<open>app.js\<close> both render the same failure view first; the unknown email then ends
  in a \<open>TypeError\<close> with the session untouched, the wrong password in a session for the
  matched account and a second call on the response.
\<close>

theorem loginPost_failures_differ:
  "findOne (\<lambda>d. email d = ''bob@x.com'') [alice] = None
   \<and> \<not> bcrypt_compare sample_env ''wrong1'' (password alice)
   \<and> loginPost sample_env [alice] None nobody_login
       = \<lparr>r_users = [alice], r_session = None,
          r_calls = [Render 200 ''login''
                       [(''message'', LStr ''Invalid email/password combination''),
                        (''user'', LNull)]],
          r_thrown = Some TypeError\<rparr>
   \<and> r_calls (loginPost sample_env [alice] None wrong_login)
       = [Render 200 ''login''
            [(''message'', LStr ''Invalid email/password combination''), (''user'', LNull)],
          Redirect ''/'']
   \<and> r_session (loginPost sample_env [alice] None wrong_login) \<noteq> None
   \<and> loginPost sample_env [alice] None wrong_login
       \<noteq> loginPost sample_env [alice] None nobody_login"
  by (simp add: loginPost_def sample_validate_login fld_def sample_find sample_env_bcrypt
      invalid_login_def) (simp add: alice_def)

section \<open>Role changes (C5, C6)\<close>

text \<open>
  C5. A request to \<^verbatim>\<open>/promote\<close> or \<^verbatim>\<open>/demote\<close> leaves the session store as it
  is and changes no name, email or stored password. At most one document changes, that
  document matches the filter, and it changes in its role only. When the request comes
  from an admin session and names a stored email, a fresh login of that account with its
  password yields a session with the new role, while every session already stored for that
  email is the one it was.
\<close>

theorem setRole_frame:
  assumes op: "(op, role) = (post_promote E, ''admin'') \<or> (op, role) = (post_demote E, ''user'')"
  shows "sessions (fst (op w rq)) = sessions w
       \<and> length (users (fst (op w rq))) = length (users w)
       \<and> map name (users (fst (op w rq))) = map name (users w)
       \<and> map email (users (fst (op w rq))) = map email (users w)
       \<and> map password (users (fst (op w rq))) = map password (users w)
       \<and> (\<forall>i<length (users w).
            users (fst (op w rq)) ! i = users w ! i
            \<or> (email_filter E (map_of (body rq) ''email'') (users w ! i)
               \<and> users (fst (op w rq)) ! i = (users w ! i)\<lparr>user_type := Some role\<rparr>))
       \<and> (\<forall>i<length (users w). \<forall>j<length (users w).
            users (fst (op w rq)) ! i \<noteq> users w ! i \<and> users (fst (op w rq)) ! j \<noteq> users w ! j
              \<longrightarrow> i = j)
       \<and> (\<forall>e d p lb s'.
            run_gates admin_gates (sessions w (sessionID rq)) = None
            \<and> map_of (body rq) ''email'' = Some (JStr e)
            \<and> findOne (\<lambda>d. email d = e) (users w) = Some d
            \<and> validate (joi_email E) login_schema lb = Inr [(''email'', e), (''password'', p)]
            \<and> bcrypt_compare E p (password d)
            \<longrightarrow> r_session (loginPost E (users (fst (op w rq))) s' lb)
                  = Some \<lparr>name = name d, email = e, user_type = Some role\<rparr>
                \<and> (\<forall>sid i. sessions w sid = Some i \<and> email i = e
                      \<longrightarrow> sessions (fst (op w rq)) sid = Some i))"
proof -
  let ?U = "users (fst (op w rq))"
  let ?filt = "email_filter E (map_of (body rq) ''email'')"
  let ?f = "\<lambda>d::user. d\<lparr>user_type := Some role\<rparr>"
  note S = post_setRole(1) [OF op, of w rq]
  note U = post_setRole(2) [OF op, of w rq]
  have c1: "length ?U = length (users w)"
    by (simp add: U updateOne_length)
  have c2: "map name ?U = map name (users w)" "map email ?U = map email (users w)"
    "map password ?U = map password (users w)"
    by (simp_all add: U updateOne_map)
  have c3: "\<forall>i<length (users w). ?U ! i = users w ! i \<or> (?filt (users w ! i) \<and> ?U ! i = ?f (users w ! i))"
    using updateOne_nth [of _ "users w" ?filt ?f] by (auto simp: U)
  have c4: "\<forall>i<length (users w). \<forall>j<length (users w).
              ?U ! i \<noteq> users w ! i \<and> ?U ! j \<noteq> users w ! j \<longrightarrow> i = j"
    using updateOne_single [of _ "users w" _ ?filt ?f] by (auto simp: U)
  have c5: "r_session (loginPost E ?U s' lb) = Some \<lparr>name = name d, email = e, user_type = Some role\<rparr>"
    if g: "run_gates admin_gates (sessions w (sessionID rq)) = None"
      and m: "map_of (body rq) ''email'' = Some (JStr e)"
      and f: "findOne (\<lambda>d. email d = e) (users w) = Some d"
      and v: "validate (joi_email E) login_schema lb = Inr [(''email'', e), (''password'', p)]"
      and c: "bcrypt_compare E p (password d)"
    for e d p lb s'
  proof -
    have filt: "?filt = (\<lambda>d. email d = e)" using m by (simp add: fun_eq_iff)
    have "findOne (\<lambda>d. email d = e) ?U = Some (?f d)"
      using g f by (simp add: U filt updateOne_findOne)
    moreover have "email d = e" using findOne_Some [OF f] by simp
    ultimately show ?thesis using v c by (simp add: loginPost_def fld_def)
  qed
  show ?thesis
    using S c1 c2 c3 c4 c5 by (intro conjI allI impI) auto
qed

theorem setRole_frame_witness:
  "sessions (fst (post_promote sample_env sample_world promote_alice)) ''s2''
     = Some \<lparr>name = ''Alice'', email = ''alice@x.com'', user_type = Some ''user''\<rparr>
   \<and> map password (users (fst (post_promote sample_env sample_world promote_alice)))
       = [''#toor123'', ''#secret1'']
   \<and> users (fst (post_promote sample_env sample_world promote_alice)) ! 0 = root
   \<and> r_session (loginPost sample_env
        (users (fst (post_promote sample_env sample_world promote_alice))) None alice_login)
       = Some \<lparr>name = ''Alice'', email = ''alice@x.com'', user_type = Some ''admin''\<rparr>"
proof -
  have op: "(post_promote sample_env, ''admin'') = (post_promote sample_env, ''admin'')
            \<or> (post_promote sample_env, ''admin'') = (post_demote sample_env, ''user'')"
    by simp
  note T = setRole_frame [OF op, of sample_world promote_alice]
  have g: "run_gates admin_gates (sessions sample_world (sessionID promote_alice)) = None"
    by (simp add: sample_world_def promote_alice_def root_passes)
  have m: "map_of (body promote_alice) ''email'' = Some (JStr ''alice@x.com'')"
    by (simp add: promote_alice_def)
  have f: "findOne (\<lambda>d. email d = ''alice@x.com'') (users sample_world) = Some alice"
    by (simp add: sample_world_def findOne_def root_def alice_def)
  have c: "bcrypt_compare sample_env ''secret1'' (password alice)"
    by (simp add: sample_env_bcrypt alice_def)
  have s2: "sessions sample_world ''s2'' = Some alice_identity"
    by (simp add: sample_world_def)
  have i0: "\<not> email_filter sample_env (map_of (body promote_alice) ''email'') (users sample_world ! 0)"
    by (simp add: m sample_world_def root_def)
  have l: "0 < length (users sample_world)" by (simp add: sample_world_def)
  from T have "sessions (fst (post_promote sample_env sample_world promote_alice)) ''s2''
      = Some alice_identity" using s2 by simp
  moreover from T have "map password (users (fst (post_promote sample_env sample_world promote_alice)))
      = map password (users sample_world)" by blast
  moreover from T i0 l have "users (fst (post_promote sample_env sample_world promote_alice)) ! 0
      = users sample_world ! 0" by blast
  moreover from T g m f c sample_validate_login(3)
  have "r_session (loginPost sample_env
        (users (fst (post_promote sample_env sample_world promote_alice))) None alice_login)
       = Some \<lparr>name = name alice, email = ''alice@x.com'', user_type = Some ''admin''\<rparr>"
    by blast
  ultimately show ?thesis
    by (simp add: alice_identity_def sample_world_def root_def alice_def)
qed

text \<open>
  C6, as the code has it. When an admin names an email that no document has, both
  handlers leave the collection as it is and answer with the redirect to the admin page, as
  they do after a change.
\<close>

theorem setRole_unknown_target:
  assumes "run_gates admin_gates s = None" "map_of b ''email'' = Some (JStr e)"
    "findOne (\<lambda>d. email d = e) db = None"
  shows "route admin_gates (promote E) db s b
           = \<lparr>r_users = db, r_session = s, r_calls = [Redirect ''/admin''], r_thrown = None\<rparr>
       \<and> route admin_gates (demote E) db s b
           = \<lparr>r_users = db, r_session = s, r_calls = [Redirect ''/admin''], r_thrown = None\<rparr>"
proof -
  have "\<forall>d\<in>set db. \<not> email_filter E (map_of b ''email'') d"
    using assms(2,3) by (simp add: findOne_None)
  then show ?thesis
    using assms(1) by (simp add: route_promote route_demote updateOne_no_match)
qed

theorem setRole_unknown_target_witness:
  "run_gates admin_gates (Some root_identity) = None
   \<and> findOne (\<lambda>d. email d = ''nobody@x.com'') [root, alice] = None
   \<and> route admin_gates (demote sample_env) [root, alice] (Some root_identity) promote_nobody
       = \<lparr>r_users = [root, alice], r_session = Some root_identity,
          r_calls = [Redirect ''/admin''], r_thrown = None\<rparr>"
proof -
  have m: "map_of promote_nobody ''email'' = Some (JStr ''nobody@x.com'')"
    by (simp add: promote_nobody_def)
  from setRole_unknown_target [OF root_passes m nobody_absent, of sample_env]
    root_passes nobody_absent
  show ?thesis by simp
qed

text \<open>
  C6 as the specification states it asks for a not-found error. Promoting
  \<open>nobody@x.com\<close> from the admin session of the sample data ends in the redirect, with
  nothing thrown.
\<close>

theorem promote_unknown_target_succeeds:
  "run_gates admin_gates (Some root_identity) = None
   \<and> findOne (\<lambda>d. email d = ''nobody@x.com'') [root, alice] = None
   \<and> route admin_gates (promote sample_env) [root, alice] (Some root_identity) promote_nobody
       = \<lparr>r_users = [root, alice], r_session = Some root_identity,
          r_calls = [Redirect ''/admin''], r_thrown = None\<rparr>"
proof -
  have e: "email alice = ''alice@x.com''" "email root = ''root@x.com''"
    by (simp_all add: root_def alice_def)
  show ?thesis
    by (simp add: root_passes nobody_absent route_promote promote_nobody_def e)
qed

section \<open>Logout (C9)\<close>

text \<open>
  C9. Logout always answers with the redirect to the home page. It removes the session of
  the request from the store and nothing else; when the store holds no such session
  (never created, destroyed or expired) the store is unchanged and the answer is the same;
  a second logout gives the result of the first. Afterwards every request that carries
  this session id is stopped at the members gate and at the admin gate, before the handler
  behind them. The logout of the variant without roles does the same.
\<close>

theorem destroySession_idempotent:
  "snd (logout w rq) = [Redirect ''/'']
   \<and> sessions (fst (logout w rq)) (sessionID rq) = None
   \<and> (\<forall>sid. sid \<noteq> sessionID rq \<longrightarrow> sessions (fst (logout w rq)) sid = sessions w sid)
   \<and> users (fst (logout w rq)) = users w
   \<and> (sessions w (sessionID rq) = None \<longrightarrow> logout w rq = (w, [Redirect ''/'']))
   \<and> logout (fst (logout w rq)) rq = logout w rq
   \<and> (\<forall>rq' h. sessionID rq' = sessionID rq \<longrightarrow>
         serve (route members_gates h) (fst (logout w rq)) rq'
           = (fst (logout w rq), [Redirect ''/login''])
         \<and> serve (route admin_gates h) (fst (logout w rq)) rq'
           = (fst (logout w rq), [Redirect ''/login'']))
   \<and> logout0 w rq = logout w rq
   \<and> isLoggedIn0 (sessions (fst (logout0 w rq)) (sessionID rq)) = Some (Redirect ''/'')"
proof -
  have a: "sessions w (sessionID rq) = None \<longrightarrow> logout w rq = (w, [Redirect ''/''])"
    by (auto simp: logout_eq fun_upd_idem)
  have b: "\<forall>rq' h. sessionID rq' = sessionID rq \<longrightarrow>
         serve (route members_gates h) (fst (logout w rq)) rq'
           = (fst (logout w rq), [Redirect ''/login''])
         \<and> serve (route admin_gates h) (fst (logout w rq)) rq'
           = (fst (logout w rq), [Redirect ''/login''])"
    by (intro allI impI serve_denied) (simp add: logout_eq)
  show ?thesis
    using a b by (simp add: logout_eq logout0_eq isLoggedIn0_def)
qed

theorem destroySession_idempotent_witness:
  "sessions sample_world ''s2'' \<noteq> None
   \<and> sessions (fst (logout sample_world logout_alice)) ''s2'' = None
   \<and> sessions (fst (logout sample_world logout_alice)) ''s1'' = Some root_identity
   \<and> logout (fst (logout sample_world logout_alice)) logout_alice
       = (fst (logout sample_world logout_alice), [Redirect ''/''])
   \<and> snd (serve (route members_gates admin) (fst (logout sample_world logout_alice)) logout_alice)
       = [Redirect ''/login'']"
proof -
  note T = destroySession_idempotent [of sample_world logout_alice]
  have sid: "sessionID logout_alice = ''s2''" by (simp add: logout_alice_def)
  have ne: "''s1'' \<noteq> sessionID logout_alice" by (simp add: logout_alice_def)
  have s1: "sessions sample_world ''s1'' = Some root_identity"
    "sessions sample_world ''s2'' \<noteq> None"
    by (simp_all add: sample_world_def)
  from T sid have 1: "sessions (fst (logout sample_world logout_alice)) ''s2'' = None"
    by simp
  from T ne s1 have 2: "sessions (fst (logout sample_world logout_alice)) ''s1'' = Some root_identity"
    by metis
  from T have 3: "logout (fst (logout sample_world logout_alice)) logout_alice
      = logout sample_world logout_alice" by blast
  from T have 4: "snd (logout sample_world logout_alice) = [Redirect ''/'']" by blast
  from T have 5: "serve (route members_gates admin) (fst (logout sample_world logout_alice)) logout_alice
      = (fst (logout sample_world logout_alice), [Redirect ''/login''])" by blast
  from 3 4 have "logout (fst (logout sample_world logout_alice)) logout_alice
       = (fst (logout sample_world logout_alice), [Redirect ''/''])"
    by (metis prod.collapse)
  with 1 2 5 s1 show ?thesis by simp
qed

end
